theory Spec2Isabelle
  imports Main "HOL-Library.List_Lexorder" "HOL-Library.Product_Lexorder"
begin

section \<open>Python values\<close>

text \<open>
  A Python \<open>str\<close> is a sequence of Unicode code points; \<open>len\<close> counts code points.
  A code point is a natural number here, so that \<open>str.strip\<close> sees every character
  Python treats as whitespace, also those beyond Latin-1.
\<close>

type_synonym pystr = "nat list"

definition py :: "string \<Rightarrow> pystr" where
  "py s = map of_char s"

text \<open>
  The values \<open>input_data\<close> can be bound to: the built-in types with their truth value,
  and \<open>PyObject b\<close> for an object of any other type (a float, a set, an instance of a
  class), of which only the truth value \<open>b\<close> that \<open>bool()\<close> returns for it matters here.
  \<open>None\<close>, \<open>bool\<close>, \<open>int\<close>, \<open>tuple\<close>, \<open>dict\<close> and these objects are neither \<open>str\<close> nor
  \<open>list\<close>.
\<close>

datatype pyval =
    PyNone
  | PyBool bool
  | PyInt int
  | PyStr pystr
  | PyList "pyval list"
  | PyTuple "pyval list"
  | PyDict "(pyval \<times> pyval) list"
  | PyObject bool

text \<open>\<open>bool(v)\<close>, which \<open>not v\<close> negates.\<close>

fun truthy :: "pyval \<Rightarrow> bool" where
  "truthy PyNone = False"
| "truthy (PyBool b) = b"
| "truthy (PyInt i) = (i \<noteq> 0)"
| "truthy (PyStr s) = (s \<noteq> [])"
| "truthy (PyList vs) = (vs \<noteq> [])"
| "truthy (PyTuple vs) = (vs \<noteq> [])"
| "truthy (PyDict kvs) = (kvs \<noteq> [])"
| "truthy (PyObject b) = b"

fun is_str :: "pyval \<Rightarrow> bool" where
  "is_str (PyStr s) = True"
| "is_str v = False"

fun is_list :: "pyval \<Rightarrow> bool" where
  "is_list (PyList vs) = True"
| "is_list v = False"

text \<open>
  The code points for which \<open>str.isspace\<close> holds; \<open>str.strip()\<close> without an argument
  removes exactly these from both ends.
\<close>

definition is_space :: "nat \<Rightarrow> bool" where
  "is_space c \<longleftrightarrow>
     (9 \<le> c \<and> c \<le> 13) \<or> (28 \<le> c \<and> c \<le> 32) \<or> c = 133 \<or> c = 160 \<or> c = 5760 \<or>
     (8192 \<le> c \<and> c \<le> 8202) \<or> c = 8232 \<or> c = 8233 \<or> c = 8239 \<or> c = 8287 \<or> c = 12288"

definition strip :: "pystr \<Rightarrow> pystr" where
  "strip s = rev (dropWhile is_space (rev (dropWhile is_space s)))"

section \<open>The checker: \<open>class Pariksa\<close>\<close>

text \<open>
  Every \<open>raise\<close> of the module is \<open>raise ValueError(message)\<close>: the module defines no
  exception class of its own, and the message tells which check failed. The methods
  \<open>_validate_input\<close>, \<open>_validate_configuration\<close> and \<open>__init__\<close> are \<open>validate_input\<close>,
  \<open>validate_configuration\<close> and \<open>Pariksa_init\<close> here.
\<close>

datatype error = ValueError string

text \<open>
  The two generator expressions of the list branch. \<open>word_ok\<close> is
  \<open>isinstance(word, str) and word.strip()\<close>; \<open>word_too_long\<close> is
  \<open>len(word.strip()) > 50\<close>, which runs only after every element passed \<open>word_ok\<close>,
  so its value on a non-string is never read.
\<close>

fun word_ok :: "pyval \<Rightarrow> bool" where
  "word_ok (PyStr s) = (strip s \<noteq> [])"
| "word_ok v = False"

fun word_too_long :: "pyval \<Rightarrow> bool" where
  "word_too_long (PyStr s) = (length (strip s) > 50)"
| "word_too_long v = False"

definition validate_input :: "pyval \<Rightarrow> error + unit" where
  "validate_input input_data =
     (if \<not> truthy input_data then Inl (ValueError ''Input data cannot be empty'')
      else case input_data of
        PyStr s \<Rightarrow>
          if strip s = [] then Inl (ValueError ''Word cannot be empty or just whitespace'')
          else if length (strip s) > 50 then Inl (ValueError ''Word is too long (max 50 characters)'')
          else Inr ()
      | PyList ws \<Rightarrow>
          if length ws > 1000 then Inl (ValueError ''Too many words (max 1000)'')
          else if \<not> list_all word_ok ws then Inl (ValueError ''All words must be non-empty strings'')
          else if list_ex word_too_long ws then Inl (ValueError ''Some words are too long (max 50 characters)'')
          else Inr ()
      | _ \<Rightarrow> Inl (ValueError ''Input must be a string or list of strings''))"

definition validate_configuration :: "int \<Rightarrow> int \<Rightarrow> error + unit" where
  "validate_configuration max_suggestions max_distance =
     (if max_suggestions < 0 \<or> max_suggestions > 10
        then Inl (ValueError ''max_suggestions must be between 0 and 10'')
      else if max_distance < 1 \<or> max_distance > 5
        then Inl (ValueError ''max_distance must be between 1 and 5'')
      else Inr ())"

text \<open>
  An instance is its attribute dictionary. \<open>__init__\<close> receives the instance as \<open>self\<close>,
  runs the two validations in this order and binds no attribute; an exception of either
  validation leaves the constructor call without an object.
\<close>

type_synonym attributes = "(string \<times> pyval) list"

definition Pariksa_init ::
  "attributes \<Rightarrow> pyval \<Rightarrow> pystr \<Rightarrow> bool \<Rightarrow> int \<Rightarrow> int \<Rightarrow> bool \<Rightarrow> 'l option \<Rightarrow> int \<Rightarrow> error + attributes" where
  "Pariksa_init self input_data dictionary_path case_sensitive max_suggestions max_distance
       enable_fuzzy_matching logger log_level =
     (case validate_input input_data of
        Inl e \<Rightarrow> Inl e
      | Inr _ \<Rightarrow>
          (case validate_configuration max_suggestions max_distance of
             Inl e \<Rightarrow> Inl e
           | Inr _ \<Rightarrow> Inr self))"

text \<open>The call \<open>Pariksa(...)\<close>: a fresh instance, without attributes, is handed to \<open>__init__\<close>.\<close>

definition Pariksa ::
  "pyval \<Rightarrow> pystr \<Rightarrow> bool \<Rightarrow> int \<Rightarrow> int \<Rightarrow> bool \<Rightarrow> 'l option \<Rightarrow> int \<Rightarrow> error + attributes" where
  "Pariksa input_data dictionary_path case_sensitive max_suggestions max_distance
       enable_fuzzy_matching logger log_level =
     Pariksa_init [] input_data dictionary_path case_sensitive max_suggestions max_distance
       enable_fuzzy_matching logger log_level"

text \<open>The class constants the loader and the defaults refer to.\<close>

definition SUPORTED_EXTENSIONS :: "pystr set" where
  "SUPORTED_EXTENSIONS = {py ''.txt'', py ''.json''}"

definition DEFAULT_DICTIONARY :: pystr where
  "DEFAULT_DICTIONARY = py ''Spellcheck/data/Melayu_Ambon_Wordlist.txt''"

definition DEFAULT_MAX_SUGGESTIONS :: int where
  "DEFAULT_MAX_SUGGESTIONS = 3"

definition DEFAULT_MAX_DISTANCE :: int where
  "DEFAULT_MAX_DISTANCE = 2"

section \<open>The suggestion engine\<close>

text \<open>
  Modelled from the spec: the module has no distance function. The spec's glossary
  defines the edit distance as the minimum number of single-character insertions,
  deletions and substitutions that transform one string into the other;
  \<open>edit_script n s t\<close> says that \<open>n\<close> such operations, applied from left to right,
  turn \<open>s\<close> into \<open>t\<close>.
\<close>

inductive edit_script :: "nat \<Rightarrow> pystr \<Rightarrow> pystr \<Rightarrow> bool" where
  done_script: "edit_script 0 [] []"
| keep: "edit_script n s t \<Longrightarrow> edit_script n (a # s) (a # t)"
| substitute: "edit_script n s t \<Longrightarrow> edit_script (Suc n) (a # s) (b # t)"
| delete: "edit_script n s t \<Longrightarrow> edit_script (Suc n) (a # s) t"
| insert: "edit_script n s t \<Longrightarrow> edit_script (Suc n) s (b # t)"

text \<open>
  Modelled from the spec: the Levenshtein distance of section 4.2, step 1, computed by
  the recurrence over the first characters: delete, insert, or substitute (free when the
  characters agree).
\<close>

fun levenshtein :: "pystr \<Rightarrow> pystr \<Rightarrow> nat" where
  "levenshtein [] t = length t"
| "levenshtein (a # s) [] = Suc (length s)"
| "levenshtein (a # s) (b # t) =
     min (min (levenshtein s (b # t) + 1) (levenshtein (a # s) t + 1))
         (levenshtein s t + (if a = b then 0 else 1))"

text \<open>
  Modelled from the spec: the memoization the spec requires of the engine, a cache keyed
  by the pair (word, candidate) that holds the distance once it has been computed. The
  engine owns the cache; each operation takes it and returns it updated.
\<close>

type_synonym distance_cache = "pystr \<times> pystr \<rightharpoonup> nat"

definition distance :: "distance_cache \<Rightarrow> pystr \<Rightarrow> pystr \<Rightarrow> nat \<times> distance_cache" where
  "distance cache word candidate =
     (case cache (word, candidate) of
        Some d \<Rightarrow> (d, cache)
      | None \<Rightarrow> (let d = levenshtein word candidate in (d, cache((word, candidate) \<mapsto> d))))"

text \<open>
  Modelled from the spec: step 1 of section 4.2, every candidate of the dictionary with
  its distance to the word, each distance read through the cache.
\<close>

fun distances :: "distance_cache \<Rightarrow> pystr \<Rightarrow> pystr list \<Rightarrow> (pystr \<times> nat) list \<times> distance_cache" where
  "distances cache word [] = ([], cache)"
| "distances cache word (c # cs) =
     (case distance cache word c of
        (d, cache1) \<Rightarrow>
          (case distances cache1 word cs of
             (rest, cache2) \<Rightarrow> ((c, d) # rest, cache2)))"

text \<open>
  Modelled from the spec: the sort key of step 3, the distance first and then the
  candidate in lexicographic order of its code points, the tie-break the spec proposes.
\<close>

definition rank :: "pystr \<times> nat \<Rightarrow> nat \<times> pystr" where
  "rank p = (snd p, fst p)"

text \<open>
  Modelled from the spec: \<open>suggest(word, dictionary, max_suggestions, max_distance)\<close> of
  section 4.2, steps 1 to 5. The dictionary is the word set in the order it happens to be
  enumerated in; the result is the sequence of (candidate, distance) pairs, with the
  cache as the engine leaves it.
\<close>

definition suggest ::
  "distance_cache \<Rightarrow> pystr \<Rightarrow> pystr list \<Rightarrow> nat \<Rightarrow> nat \<Rightarrow> (pystr \<times> nat) list \<times> distance_cache" where
  "suggest cache word dictionary max_suggestions max_distance =
     (case distances cache word dictionary of
        (scored, cache') \<Rightarrow>
          (let kept = filter (\<lambda>p. snd p \<le> max_distance) scored;
               ranked = sort_key rank kept
           in (if max_suggestions = 0 then [] else take max_suggestions ranked, cache')))"

text \<open>
  Modelled from the spec: the cache is a pure-function cache, so every entry holds the
  distance of its key. The engine starts from the empty cache and only \<open>distance\<close>
  writes to it.
\<close>

definition cache_consistent :: "distance_cache \<Rightarrow> bool" where
  "cache_consistent cache \<longleftrightarrow>
     (\<forall>w c d. cache (w, c) = Some d \<longrightarrow> d = levenshtein w c)"

text \<open>
  Modelled from the spec: steps 1 and 2 of section 4.2 without the cache, the candidates
  within the distance budget, each with its distance.
\<close>

definition candidates :: "pystr \<Rightarrow> pystr list \<Rightarrow> nat \<Rightarrow> (pystr \<times> nat) list" where
  "candidates word dictionary max_distance =
     filter (\<lambda>p. snd p \<le> max_distance) (map (\<lambda>c. (c, levenshtein word c)) dictionary)"

section \<open>The dictionary store\<close>

text \<open>
  Modelled from the spec: the module has no loader. Section 6: a \<open>.txt\<close> dictionary is
  line-delimited, one word per line, trimmed, blank lines skipped.
\<close>

fun split_lines :: "pystr \<Rightarrow> pystr list" where
  "split_lines [] = [] # []"
| "split_lines (c # cs) =
     (if c = 10 then [] # split_lines cs
      else (case split_lines cs of [] \<Rightarrow> [c] # [] | l # ls \<Rightarrow> (c # l) # ls))"

definition text_words :: "pystr \<Rightarrow> pystr list" where
  "text_words text = filter (\<lambda>w. w \<noteq> []) (map strip (split_lines text))"

text \<open>
  Modelled from the spec: the extension of a path, from its last dot to its end, empty
  when the path has no dot.
\<close>

definition extension :: "pystr \<Rightarrow> pystr" where
  "extension path =
     (if 46 \<in> set path then 46 # rev (takeWhile (\<lambda>c. c \<noteq> 46) (rev path)) else [])"

datatype load_error = DictionaryLoadError

text \<open>
  Modelled from the spec: \<open>load(path) -> WordSet\<close> of section 4.1. The file system maps a
  path to the bytes of the file there, if there is one. What the spec leaves open is a
  parameter: \<open>decode\<close> turns bytes into text or fails, \<open>json_words\<close> reads the flat list of
  strings of a \<open>.json\<close> text, and \<open>normalise\<close> is the normalization of the configured
  case mode.
\<close>

definition load ::
  "('b \<Rightarrow> pystr option) \<Rightarrow> (pystr \<Rightarrow> pystr list) \<Rightarrow> (pystr \<Rightarrow> pystr) \<Rightarrow>
   (pystr \<rightharpoonup> 'b) \<Rightarrow> pystr \<Rightarrow> load_error + pystr set" where
  "load decode json_words normalise fs path =
     (case fs path of
        None \<Rightarrow> Inl DictionaryLoadError
      | Some raw \<Rightarrow>
          if extension path \<notin> SUPORTED_EXTENSIONS then Inl DictionaryLoadError
          else (case decode raw of
                  None \<Rightarrow> Inl DictionaryLoadError
                | Some text \<Rightarrow>
                    (let words = (if extension path = py ''.txt'' then text_words text
                                  else json_words text);
                         word_set = set (map normalise words)
                     in if word_set = {} then Inl DictionaryLoadError else Inr word_set)))"

section \<open>Facts about the validation code\<close>

lemma dropWhile_all_iff: "(\<forall>x\<in>set (dropWhile P xs). P x) \<longleftrightarrow> dropWhile P xs = []"
proof
  assume a: "\<forall>x\<in>set (dropWhile P xs). P x"
  show "dropWhile P xs = []"
  proof (rule ccontr)
    assume n: "dropWhile P xs \<noteq> []"
    then have "\<not> P (hd (dropWhile P xs))" by (rule hd_dropWhile)
    moreover from n have "hd (dropWhile P xs) \<in> set (dropWhile P xs)" by simp
    ultimately show False using a by blast
  qed
qed (auto dest: set_dropWhileD)

lemma strip_empty_iff: "strip s = [] \<longleftrightarrow> (\<forall>c\<in>set s. is_space c)"
  by (simp add: strip_def dropWhile_eq_Nil_conv dropWhile_all_iff)

lemma length_strip_le: "length (strip s) \<le> length s"
  unfolding strip_def
  by (metis length_rev length_dropWhile_le order_trans)

lemma strip_Nil: "strip [] = []"
  by (simp add: strip_def)

lemma validate_configuration_ok_iff:
  "validate_configuration ms md = Inr () \<longleftrightarrow> 0 \<le> ms \<and> ms \<le> 10 \<and> 1 \<le> md \<and> md \<le> 5"
  by (auto simp: validate_configuration_def)

lemma validate_input_str:
  "validate_input (PyStr s) =
     (if s = [] then Inl (ValueError ''Input data cannot be empty'')
      else if strip s = [] then Inl (ValueError ''Word cannot be empty or just whitespace'')
      else if 50 < length (strip s) then Inl (ValueError ''Word is too long (max 50 characters)'')
      else Inr ())"
  by (simp add: validate_input_def)

lemma validate_input_list:
  "validate_input (PyList ws) =
     (if ws = [] then Inl (ValueError ''Input data cannot be empty'')
      else if 1000 < length ws then Inl (ValueError ''Too many words (max 1000)'')
      else if \<not> list_all word_ok ws then Inl (ValueError ''All words must be non-empty strings'')
      else if list_ex word_too_long ws then Inl (ValueError ''Some words are too long (max 50 characters)'')
      else Inr ())"
  by (simp add: validate_input_def)

lemma validate_input_ok_iff:
  "validate_input v = Inr () \<longleftrightarrow>
     (\<exists>s. v = PyStr s \<and> strip s \<noteq> [] \<and> length (strip s) \<le> 50) \<or>
     (\<exists>ws. v = PyList ws \<and> ws \<noteq> [] \<and> length ws \<le> 1000 \<and>
        (\<forall>w\<in>set ws. \<exists>s. w = PyStr s \<and> strip s \<noteq> [] \<and> length (strip s) \<le> 50))"
proof (cases v)
  case (PyStr s)
  then show ?thesis by (auto simp: validate_input_str strip_Nil)
next
  case (PyList ws)
  have each: "word_ok w \<and> \<not> word_too_long w
              \<longleftrightarrow> (\<exists>s. w = PyStr s \<and> strip s \<noteq> [] \<and> length (strip s) \<le> 50)" for w
    by (cases w) (simp_all add: not_less)
  have "list_all word_ok ws \<and> \<not> list_ex word_too_long ws
        \<longleftrightarrow> (\<forall>w\<in>set ws. word_ok w \<and> \<not> word_too_long w)"
    by (auto simp: list_all_iff list_ex_iff)
  then have all: "list_all word_ok ws \<and> \<not> list_ex word_too_long ws
        \<longleftrightarrow> (\<forall>w\<in>set ws. \<exists>s. w = PyStr s \<and> strip s \<noteq> [] \<and> length (strip s) \<le> 50)"
    by (simp only: each)
  have "validate_input (PyList ws) = Inr ()
        \<longleftrightarrow> ws \<noteq> [] \<and> length ws \<le> 1000 \<and> list_all word_ok ws \<and> \<not> list_ex word_too_long ws"
    by (simp add: validate_input_list not_less)
  with all PyList show ?thesis by simp
qed (simp_all add: validate_input_def)

lemma validate_input_other:
  "\<not> is_str v \<Longrightarrow> \<not> is_list v \<Longrightarrow>
   validate_input v =
     (if truthy v then Inl (ValueError ''Input must be a string or list of strings'')
      else Inl (ValueError ''Input data cannot be empty''))"
  by (cases v) (simp_all add: validate_input_def)

lemma validate_input_falsy:
  "\<not> truthy v \<Longrightarrow> validate_input v = Inl (ValueError ''Input data cannot be empty'')"
  by (simp add: validate_input_def)

lemma Pariksa_unfold:
  "Pariksa inp p cs ms md fz lg ll =
     (case validate_input inp of Inl e \<Rightarrow> Inl e
      | Inr u \<Rightarrow> (case validate_configuration ms md of Inl e \<Rightarrow> Inl e | Inr u \<Rightarrow> Inr []))"
  by (simp add: Pariksa_def Pariksa_init_def)

lemma word_ok_PyStr: "list_all word_ok (map PyStr ss) \<longleftrightarrow> (\<forall>s\<in>set ss. strip s \<noteq> [])"
  by (induction ss) auto

lemma word_too_long_PyStr: "list_ex word_too_long (map PyStr ss) \<longleftrightarrow> (\<exists>s\<in>set ss. 50 < length (strip s))"
  by (induction ss) auto

lemma input_error_not_configuration_error:
  assumes "validate_input v = Inl e" and "validate_configuration ms md = Inl e'"
  shows "e \<noteq> e'"
proof -
  from assms(2) have c: "e' = ValueError ''max_suggestions must be between 0 and 10'' \<or>
      e' = ValueError ''max_distance must be between 1 and 5''"
    by (auto simp: validate_configuration_def split: if_splits)
  from assms(1) have "e = ValueError ''Input data cannot be empty'' \<or>
      e = ValueError ''Word cannot be empty or just whitespace'' \<or>
      e = ValueError ''Word is too long (max 50 characters)'' \<or>
      e = ValueError ''Too many words (max 1000)'' \<or>
      e = ValueError ''All words must be non-empty strings'' \<or>
      e = ValueError ''Some words are too long (max 50 characters)'' \<or>
      e = ValueError ''Input must be a string or list of strings''"
    by (auto simp: validate_input_def split: if_splits pyval.splits)
  with c show ?thesis by auto
qed

section \<open>Facts about the suggestion engine\<close>

subsection \<open>The recurrence computes the minimum number of edits\<close>

lemma levenshtein_Nil2: "levenshtein s [] = length s"
  by (cases s) simp_all

lemma edit_script_insert_all: "edit_script (length t) [] t"
  by (induction t) (auto intro: edit_script.intros)

lemma edit_script_delete_all: "edit_script (length s) s []"
  by (induction s) (auto intro: edit_script.intros)

lemma levenshtein_script: "edit_script (levenshtein s t) s t"
proof (induction s t rule: levenshtein.induct)
  case (1 t)
  show ?case by (simp add: edit_script_insert_all)
next
  case (2 a s)
  have "edit_script (Suc (length s)) (a # s) []"
    by (rule edit_script.delete) (rule edit_script_delete_all)
  then show ?case by simp
next
  case (3 a s b t)
  let ?del = "levenshtein s (b # t) + 1"
  let ?ins = "levenshtein (a # s) t + 1"
  let ?sub = "levenshtein s t + (if a = b then 0 else 1)"
  have del: "edit_script ?del (a # s) (b # t)"
    using "3.IH"(1) by (simp add: edit_script.delete)
  have ins: "edit_script ?ins (a # s) (b # t)"
    using "3.IH"(2) by (simp add: edit_script.insert)
  have sub: "edit_script ?sub (a # s) (b # t)"
    using "3.IH"(3) by (cases "a = b") (simp_all add: edit_script.keep edit_script.substitute)
  have "levenshtein (a # s) (b # t) = min (min ?del ?ins) ?sub" by simp
  then consider "levenshtein (a # s) (b # t) = ?del" | "levenshtein (a # s) (b # t) = ?ins"
    | "levenshtein (a # s) (b # t) = ?sub"
    unfolding min_def by (auto split: if_splits)
  then show ?case
  proof cases
    case 1 with del show ?thesis by metis
  next
    case 2 with ins show ?thesis by metis
  next
    case 3 with sub show ?thesis by metis
  qed
qed

lemma levenshtein_least: "edit_script n s t \<Longrightarrow> levenshtein s t \<le> n"
proof (induction rule: edit_script.induct)
  case done_script
  show ?case by simp
next
  case (keep n s t a)
  then show ?case by simp
next
  case (substitute n s t a b)
  then show ?case by (auto simp: min_le_iff_disj)
next
  case (delete n s t a)
  then show ?case by (cases t) (simp_all add: levenshtein_Nil2)
next
  case (insert n s t b)
  then show ?case by (cases s) simp_all
qed

lemma levenshtein_is_minimum: "levenshtein s t = (LEAST n. edit_script n s t)"
  by (rule Least_equality [symmetric]) (auto intro: levenshtein_script levenshtein_least)

subsection \<open>The cache\<close>

lemma cache_consistent_empty: "cache_consistent Map.empty"
  by (simp add: cache_consistent_def)

lemma distance_consistent:
  assumes "cache_consistent cache"
  shows "fst (distance cache w c) = levenshtein w c"
    and "cache_consistent (snd (distance cache w c))"
  using assms by (auto simp: distance_def cache_consistent_def Let_def split: option.splits)

lemma distances_consistent:
  assumes "cache_consistent cache"
  shows "fst (distances cache w cs) = map (\<lambda>c. (c, levenshtein w c)) cs
         \<and> cache_consistent (snd (distances cache w cs))"
  using assms
proof (induction cs arbitrary: cache)
  case Nil
  then show ?case by simp
next
  case (Cons c cs)
  obtain d cache1 where d: "distance cache w c = (d, cache1)" by (cases "distance cache w c")
  with distance_consistent [OF Cons.prems, of w c]
  have d_eq: "d = levenshtein w c" and c1: "cache_consistent cache1" by simp_all
  obtain rest cache2 where r: "distances cache1 w cs = (rest, cache2)"
    by (cases "distances cache1 w cs")
  with Cons.IH [OF c1] have "rest = map (\<lambda>c. (c, levenshtein w c)) cs" and "cache_consistent cache2"
    by simp_all
  with d r d_eq show ?case by simp
qed

lemma suggest_consistent:
  assumes "cache_consistent cache"
  shows "fst (suggest cache w dict ms md) =
           (if ms = 0 then [] else take ms (sort_key rank (candidates w dict md)))"
    and "cache_consistent (snd (suggest cache w dict ms md))"
  using distances_consistent [OF assms, of w dict]
  by (auto simp: suggest_def candidates_def split: prod.splits)

lemma set_candidates:
  "set (candidates w dict md) = {(c, levenshtein w c) | c. c \<in> set dict \<and> levenshtein w c \<le> md}"
  by (auto simp: candidates_def)

lemma inj_rank: "inj_on rank A"
  by (auto simp: inj_on_def rank_def prod_eq_iff)

lemma distinct_candidates: "distinct dict \<Longrightarrow> distinct (candidates w dict md)"
  by (simp add: candidates_def distinct_map inj_on_def)

lemma ranked_order_independent:
  assumes "set dict = set dict'" "distinct dict" "distinct dict'"
  shows "sort_key rank (candidates w dict md) = sort_key rank (candidates w dict' md)"
proof (rule map_sorted_distinct_set_unique [where f = rank])
  show "inj_on rank (set (sort_key rank (candidates w dict md)) \<union> set (sort_key rank (candidates w dict' md)))"
    by (rule inj_rank)
  show "distinct (map rank (sort_key rank (candidates w dict md)))"
    using assms(2) by (simp add: distinct_map inj_rank distinct_candidates)
  show "distinct (map rank (sort_key rank (candidates w dict' md)))"
    using assms(3) by (simp add: distinct_map inj_rank distinct_candidates)
  show "set (sort_key rank (candidates w dict md)) = set (sort_key rank (candidates w dict' md))"
    using assms(1) by (simp add: set_candidates)
qed simp_all

lemma sorted_take_ranked: "sorted (map rank (take n (sort_key rank xs)))"
  by (simp add: take_map [symmetric])

lemma sorted_rank_distance: "sorted (map rank xs) \<Longrightarrow> sorted (map snd xs)"
  by (induction xs) (auto simp: rank_def less_eq_prod_def)

section \<open>Facts about the dictionary store\<close>

lemma split_lines_nonempty: "split_lines t \<noteq> []"
  by (induction t) (auto split: list.splits)

lemma split_lines_chars: "(\<Union>l\<in>set (split_lines t). set l) = set t - {10}"
proof (induction t)
  case Nil
  show ?case by simp
next
  case (Cons c cs)
  obtain l ls where ls: "split_lines cs = l # ls"
    using split_lines_nonempty [of cs] by (cases "split_lines cs") auto
  with Cons show ?case by auto
qed

lemma is_space_newline: "is_space 10"
  by (simp add: is_space_def)

lemma text_words_empty_iff: "text_words text = [] \<longleftrightarrow> (\<forall>c\<in>set text. is_space c)"
proof -
  have "text_words text = [] \<longleftrightarrow> (\<forall>l\<in>set (split_lines text). \<forall>c\<in>set l. is_space c)"
    by (simp add: text_words_def filter_empty_conv strip_empty_iff)
  also have "\<dots> \<longleftrightarrow> (\<forall>c\<in>(\<Union>l\<in>set (split_lines text). set l). is_space c)"
    by blast
  also have "\<dots> \<longleftrightarrow> (\<forall>c\<in>set text. is_space c)"
    unfolding split_lines_chars using is_space_newline by auto
  finally show ?thesis .
qed

section \<open>Construction and validation\<close>

text \<open>
  C1, as the code has it. With input data that passes \<open>_validate_input\<close>: a configuration
  with \<open>max_suggestions\<close> in [0,10] and \<open>max_distance\<close> in [1,5] constructs the checker; a
  \<open>max_suggestions\<close> outside [0,10] raises the \<open>ValueError\<close> of the first configuration
  check, and a \<open>max_distance\<close> outside [1,5] the \<open>ValueError\<close> of the second. Whatever the
  input data, an out-of-range value ends construction with an exception: no checker is
  built from a clamped value. When the input data is invalid as well, that exception is
  the one \<open>_validate_input\<close> raises, which is neither of the two configuration errors.
\<close>

theorem construction_checks_configuration:
  "(validate_input inp = Inr () \<and> 0 \<le> ms \<and> ms \<le> 10 \<and> 1 \<le> md \<and> md \<le> 5
      \<longrightarrow> Pariksa inp p cs ms md fz lg ll = Inr []) \<and>
   (ms < 0 \<or> 10 < ms \<or> md < 1 \<or> 5 < md \<longrightarrow> isl (Pariksa inp p cs ms md fz lg ll)) \<and>
   (validate_input inp = Inr () \<and> (ms < 0 \<or> 10 < ms)
      \<longrightarrow> Pariksa inp p cs ms md fz lg ll
            = Inl (ValueError ''max_suggestions must be between 0 and 10'')) \<and>
   (validate_input inp = Inr () \<and> 0 \<le> ms \<and> ms \<le> 10 \<and> (md < 1 \<or> 5 < md)
      \<longrightarrow> Pariksa inp p cs ms md fz lg ll
            = Inl (ValueError ''max_distance must be between 1 and 5'')) \<and>
   (\<forall>e. validate_input inp = Inl e \<and> (ms < 0 \<or> 10 < ms \<or> md < 1 \<or> 5 < md)
      \<longrightarrow> Pariksa inp p cs ms md fz lg ll = Inl e \<and>
          e \<noteq> ValueError ''max_suggestions must be between 0 and 10'' \<and>
          e \<noteq> ValueError ''max_distance must be between 1 and 5'')"
proof -
  have last: "Pariksa inp p cs ms md fz lg ll = Inl e \<and>
          e \<noteq> ValueError ''max_suggestions must be between 0 and 10'' \<and>
          e \<noteq> ValueError ''max_distance must be between 1 and 5''"
    if v: "validate_input inp = Inl e" for e
  proof -
    have a: "validate_configuration 11 2 = Inl (ValueError ''max_suggestions must be between 0 and 10'')"
      and b: "validate_configuration 3 9 = Inl (ValueError ''max_distance must be between 1 and 5'')"
      by (simp_all add: validate_configuration_def)
    from input_error_not_configuration_error [OF v a] input_error_not_configuration_error [OF v b] v
    show ?thesis by (simp add: Pariksa_unfold)
  qed
  have first: "(validate_input inp = Inr () \<and> 0 \<le> ms \<and> ms \<le> 10 \<and> 1 \<le> md \<and> md \<le> 5
      \<longrightarrow> Pariksa inp p cs ms md fz lg ll = Inr []) \<and>
   (ms < 0 \<or> 10 < ms \<or> md < 1 \<or> 5 < md \<longrightarrow> isl (Pariksa inp p cs ms md fz lg ll)) \<and>
   (validate_input inp = Inr () \<and> (ms < 0 \<or> 10 < ms)
      \<longrightarrow> Pariksa inp p cs ms md fz lg ll
            = Inl (ValueError ''max_suggestions must be between 0 and 10'')) \<and>
   (validate_input inp = Inr () \<and> 0 \<le> ms \<and> ms \<le> 10 \<and> (md < 1 \<or> 5 < md)
      \<longrightarrow> Pariksa inp p cs ms md fz lg ll
            = Inl (ValueError ''max_distance must be between 1 and 5''))"
    by (auto simp: Pariksa_unfold validate_configuration_def split: sum.splits)
  from first last show ?thesis by blast
qed

theorem construction_checks_configuration_witness:
  "Pariksa (PyStr (py ''rumah'')) (py ''words.txt'') False 3 2 True (None :: unit option) 30
     = Inr [] \<and>
   Pariksa (PyStr (py ''rumah'')) (py ''words.txt'') False 11 2 True (None :: unit option) 30
     = Inl (ValueError ''max_suggestions must be between 0 and 10'') \<and>
   Pariksa (PyStr (py ''rumah'')) (py ''words.txt'') False 3 0 True (None :: unit option) 30
     = Inl (ValueError ''max_distance must be between 1 and 5'') \<and>
   validate_input (PyStr [32]) = Inl (ValueError ''Word cannot be empty or just whitespace'') \<and>
   Pariksa (PyStr [32]) (py ''words.txt'') False 11 0 True (None :: unit option) 30
     = Inl (ValueError ''Word cannot be empty or just whitespace'')"
proof -
  have v: "validate_input (PyStr (py ''rumah'')) = Inr ()"
    by (simp add: validate_input_str py_def strip_def is_space_def)
  have w: "validate_input (PyStr [32]) = Inl (ValueError ''Word cannot be empty or just whitespace'')"
    by (simp add: validate_input_str strip_def is_space_def)
  show ?thesis
    using v w
      construction_checks_configuration
        [of "PyStr (py ''rumah'')" 3 2 "py ''words.txt''" False True "None :: unit option" 30]
      construction_checks_configuration
        [of "PyStr (py ''rumah'')" 11 2 "py ''words.txt''" False True "None :: unit option" 30]
      construction_checks_configuration
        [of "PyStr (py ''rumah'')" 3 0 "py ''words.txt''" False True "None :: unit option" 30]
      construction_checks_configuration
        [of "PyStr [32]" 11 0 "py ''words.txt''" False True "None :: unit option" 30]
    by simp
qed

text \<open>
  C1 as stated fails where the input data is invalid too: with the empty word and
  \<open>max_suggestions = 11\<close> the configuration check would raise, but the exception that
  leaves the constructor is the one of the input check.
\<close>

theorem configuration_error_masked_by_input_error:
  "validate_configuration 11 2 = Inl (ValueError ''max_suggestions must be between 0 and 10'') \<and>
   Pariksa (PyStr []) (py ''words.txt'') False 11 2 True (None :: unit option) 30
     = Inl (ValueError ''Input data cannot be empty'')"
  by (simp add: Pariksa_unfold validate_configuration_def validate_input_str)

text \<open>
  C2, as the code has it. A single word that is empty, consists of whitespace only, or is
  longer than 50 characters once leading and trailing whitespace is removed, is rejected by
  \<open>_validate_input\<close> with a \<open>ValueError\<close>, and the constructor ends with that same exception
  whatever the dictionary path and the other arguments are: nothing of the dictionary is
  read before.
\<close>

theorem invalid_word_rejected:
  assumes "s = [] \<or> (\<forall>c\<in>set s. is_space c) \<or> 50 < length (strip s)"
  shows "\<exists>m. validate_input (PyStr s) = Inl (ValueError m) \<and>
             Pariksa (PyStr s) p cs ms md fz lg ll = Inl (ValueError m)"
  using assms by (auto simp: Pariksa_unfold validate_input_str strip_empty_iff)

theorem invalid_word_rejected_witness:
  "is_space 32 \<and> is_space 9 \<and>
   validate_input (PyStr [32, 9]) = Inl (ValueError ''Word cannot be empty or just whitespace'') \<and>
   Pariksa (PyStr [32, 9]) (py ''words.txt'') False 3 2 True (None :: unit option) 30
     = Inl (ValueError ''Word cannot be empty or just whitespace'') \<and>
   50 < length (strip (replicate 51 97)) \<and>
   validate_input (PyStr (replicate 51 97)) = Inl (ValueError ''Word is too long (max 50 characters)'')"
proof -
  have h: "[32, 9] = [] \<or> (\<forall>c\<in>set [32, 9]. is_space c) \<or> 50 < length (strip [32, 9])"
    by (simp add: is_space_def)
  have v: "validate_input (PyStr [32, 9]) = Inl (ValueError ''Word cannot be empty or just whitespace'')"
    by (simp add: validate_input_str strip_def is_space_def)
  have s: "strip (replicate 51 97) = replicate 51 97"
    by (simp add: strip_def is_space_def dropWhile_replicate)
  have h': "replicate 51 97 = [] \<or> (\<forall>c\<in>set (replicate 51 97). is_space c)
            \<or> 50 < length (strip (replicate 51 97))"
    by (simp add: s)
  have v': "validate_input (PyStr (replicate 51 97))
            = Inl (ValueError ''Word is too long (max 50 characters)'')"
    by (simp add: validate_input_str s)
  from invalid_word_rejected [OF h, of "py ''words.txt''" False 3 2 True "None :: unit option" 30] v
  have "Pariksa (PyStr [32, 9]) (py ''words.txt'') False 3 2 True (None :: unit option) 30
     = Inl (ValueError ''Word cannot be empty or just whitespace'')" by auto
  moreover
  from invalid_word_rejected [OF h', of "py ''words.txt''" False 3 2 True "None :: unit option" 30]
  have "\<exists>m. validate_input (PyStr (replicate 51 97)) = Inl (ValueError m)" by blast
  ultimately show ?thesis using v v' s by (simp add: is_space_def)
qed

text \<open>
  C2 as stated fails for a word of more than 50 characters whose surplus is surrounding
  whitespace: a space followed by fifty letters has 51 characters and passes, since the
  length that is compared is the one after \<open>strip()\<close>.
\<close>

theorem long_padded_word_accepted:
  "length (32 # replicate 50 (97 :: nat)) = 51 \<and>
   validate_input (PyStr (32 # replicate 50 97)) = Inr ()"
  by (simp add: validate_input_str strip_def is_space_def)

text \<open>
  C3. A list of more than 1000 elements is rejected with the \<open>ValueError\<close> of the size
  check. A list of exactly 1000 words passes validation when each is a non-empty string of
  at most 50 characters, non-empty in the sense of the element check of the code and of
  the spec's query model: not empty once leading and trailing whitespace is removed.
\<close>

theorem batch_size_limit:
  "(1000 < length ws
      \<longrightarrow> validate_input (PyList ws) = Inl (ValueError ''Too many words (max 1000)'')) \<and>
   (length ss = 1000 \<and> (\<forall>s\<in>set ss. strip s \<noteq> [] \<and> length s \<le> 50)
      \<longrightarrow> validate_input (PyList (map PyStr ss)) = Inr ())"
proof (intro conjI impI)
  assume "1000 < length ws"
  then show "validate_input (PyList ws) = Inl (ValueError ''Too many words (max 1000)'')"
    by (auto simp: validate_input_list)
next
  assume a: "length ss = 1000 \<and> (\<forall>s\<in>set ss. strip s \<noteq> [] \<and> length s \<le> 50)"
  then have "ss \<noteq> []" by auto
  moreover from a have "list_all word_ok (map PyStr ss)" by (simp add: word_ok_PyStr)
  moreover have "\<not> list_ex word_too_long (map PyStr ss)"
  proof -
    have "length (strip s) \<le> 50" if "s \<in> set ss" for s
      using a that length_strip_le [of s] by (meson order_trans)
    then show ?thesis by (auto simp: word_too_long_PyStr not_less)
  qed
  ultimately show "validate_input (PyList (map PyStr ss)) = Inr ()"
    using a by (simp add: validate_input_list)
qed

theorem batch_size_limit_witness:
  "validate_input (PyList (replicate 1001 (PyStr (py ''a''))))
     = Inl (ValueError ''Too many words (max 1000)'') \<and>
   validate_input (PyList (map PyStr (replicate 1000 (py ''a'')))) = Inr ()"
proof -
  have s: "strip (py ''a'') = py ''a''" by (simp add: strip_def py_def is_space_def)
  have h: "length (replicate 1000 (py ''a'')) = 1000 \<and>
           (\<forall>s\<in>set (replicate 1000 (py ''a'')). strip s \<noteq> [] \<and> length s \<le> 50)"
    by (simp add: s) (simp add: py_def)
  have h': "1000 < length (replicate 1001 (PyStr (py ''a'')))" by simp
  show ?thesis
    using batch_size_limit [of "replicate 1001 (PyStr (py ''a''))" "replicate 1000 (py ''a'')"] h h'
    by blast
qed

text \<open>
  C4 on the code: a constructor call that succeeds returns an instance on which no
  attribute is bound. \<open>__init__\<close> never reads \<open>dictionary_path\<close>, so the checker holds no
  word set, loaded or otherwise.
\<close>

theorem constructor_binds_no_attribute:
  "Pariksa inp p cs ms md fz lg ll = Inr obj \<Longrightarrow> obj = []"
  by (auto simp: Pariksa_unfold split: sum.splits)

theorem constructor_binds_no_attribute_witness:
  "(case Pariksa (PyStr (py ''rumah'')) DEFAULT_DICTIONARY False
           DEFAULT_MAX_SUGGESTIONS DEFAULT_MAX_DISTANCE True (None :: unit option) 30 of
      Inl e \<Rightarrow> False | Inr obj \<Rightarrow> obj = [])"
proof -
  have v: "validate_input (PyStr (py ''rumah'')) = Inr ()"
    by (simp add: validate_input_str py_def strip_def is_space_def)
  have e: "Pariksa (PyStr (py ''rumah'')) DEFAULT_DICTIONARY False
           DEFAULT_MAX_SUGGESTIONS DEFAULT_MAX_DISTANCE True (None :: unit option) 30 = Inr []"
    by (simp add: Pariksa_unfold v validate_configuration_def DEFAULT_MAX_SUGGESTIONS_def
        DEFAULT_MAX_DISTANCE_def)
  from constructor_binds_no_attribute [OF e] e show ?thesis by simp
qed

section \<open>The suggestion engine and the dictionary store\<close>

text \<open>
  C5. For every query word, dictionary and consistent cache, the sequence \<open>suggest\<close>
  returns holds only pairs of a dictionary word and its Levenshtein distance to the query,
  that distance at most \<open>max_distance\<close>; it is in ascending order of distance, ties in the
  lexicographic order of the candidates; and it has at most \<open>max_suggestions\<close> entries.
\<close>

theorem suggest_bounded_ranked_truncated:
  assumes "cache_consistent cache"
  shows "(\<forall>(c, d) \<in> set (fst (suggest cache word dictionary max_suggestions max_distance)).
            c \<in> set dictionary \<and> d = levenshtein word c \<and> d \<le> max_distance) \<and>
         sorted (map snd (fst (suggest cache word dictionary max_suggestions max_distance))) \<and>
         sorted (map rank (fst (suggest cache word dictionary max_suggestions max_distance))) \<and>
         length (fst (suggest cache word dictionary max_suggestions max_distance)) \<le> max_suggestions"
proof -
  let ?r = "fst (suggest cache word dictionary max_suggestions max_distance)"
  let ?ranked = "sort_key rank (candidates word dictionary max_distance)"
  have r: "?r = (if max_suggestions = 0 then [] else take max_suggestions ?ranked)"
    by (rule suggest_consistent(1) [OF assms])
  have "set ?r \<subseteq> set (candidates word dictionary max_distance)"
    unfolding r using set_take_subset [of max_suggestions ?ranked] by auto
  then have members:
    "\<forall>(c, d) \<in> set ?r. c \<in> set dictionary \<and> d = levenshtein word c \<and> d \<le> max_distance"
    unfolding set_candidates by auto
  have ranked: "sorted (map rank ?r)"
    unfolding r by (simp add: sorted_take_ranked)
  then have ascending: "sorted (map snd ?r)"
    by (rule sorted_rank_distance)
  have "length ?r \<le> max_suggestions"
    unfolding r by simp
  with members ranked ascending show ?thesis by blast
qed

theorem suggest_bounded_ranked_truncated_witness:
  "cache_consistent Map.empty \<and>
   fst (suggest Map.empty (py ''rma'') [py ''rumah'', py ''ruma'', py ''rimau''] 3 2)
     = [(py ''ruma'', 1), (py ''rimau'', 2), (py ''rumah'', 2)] \<and>
   sorted (map snd (fst (suggest Map.empty (py ''rma'') [py ''rumah'', py ''ruma'', py ''rimau''] 3 2))) \<and>
   length (fst (suggest Map.empty (py ''rma'') [py ''rumah'', py ''ruma'', py ''rimau''] 3 2)) \<le> 3"
proof -
  have h: "cache_consistent Map.empty" by (rule cache_consistent_empty)
  have v: "fst (suggest Map.empty (py ''rma'') [py ''rumah'', py ''ruma'', py ''rimau''] 3 2)
     = [(py ''ruma'', 1), (py ''rimau'', 2), (py ''rumah'', 2)]"
    by (simp add: suggest_def distance_def rank_def py_def)
  from suggest_bounded_ranked_truncated
    [OF h, of "py ''rma''" "[py ''rumah'', py ''ruma'', py ''rimau'']" 3 2] h v
  show ?thesis by blast
qed

text \<open>
  C6. \<open>suggest\<close> has no failure result. With \<open>max_suggestions = 0\<close> it returns the empty
  sequence for every query word, dictionary and cache; and when no dictionary word is
  within \<open>max_distance\<close> of the query it returns the empty sequence as well.
\<close>

theorem suggest_empty_result:
  "fst (suggest cache word dictionary 0 max_distance) = [] \<and>
   (cache_consistent cache \<and> (\<forall>c\<in>set dictionary. max_distance < levenshtein word c)
      \<longrightarrow> fst (suggest cache word dictionary max_suggestions max_distance) = [])"
proof
  show "fst (suggest cache word dictionary 0 max_distance) = []"
    by (simp add: suggest_def split: prod.splits)
next
  show "cache_consistent cache \<and> (\<forall>c\<in>set dictionary. max_distance < levenshtein word c)
      \<longrightarrow> fst (suggest cache word dictionary max_suggestions max_distance) = []"
  proof
    assume a: "cache_consistent cache \<and> (\<forall>c\<in>set dictionary. max_distance < levenshtein word c)"
    then have "candidates word dictionary max_distance = []"
      by (auto simp: candidates_def filter_empty_conv)
    with a show "fst (suggest cache word dictionary max_suggestions max_distance) = []"
      by (simp add: suggest_consistent(1))
  qed
qed

theorem suggest_empty_result_witness:
  "cache_consistent Map.empty \<and>
   1 < levenshtein (py ''rma'') (py ''rumah'') \<and> 1 < levenshtein (py ''rma'') (py ''rimau'') \<and>
   fst (suggest Map.empty (py ''rma'') [py ''rumah'', py ''rimau''] 3 1) = [] \<and>
   fst (suggest Map.empty (py ''rma'') [py ''ruma''] 0 2) = []"
proof -
  have h: "cache_consistent Map.empty" by (rule cache_consistent_empty)
  have f: "\<forall>c\<in>set [py ''rumah'', py ''rimau'']. 1 < levenshtein (py ''rma'') c"
    by (simp add: py_def)
  from suggest_empty_result [of Map.empty "py ''rma''" "[py ''rumah'', py ''rimau'']" 1 3]
    suggest_empty_result [of Map.empty "py ''rma''" "[py ''ruma'']" 2] h f
  show ?thesis by simp
qed

text \<open>
  C7. \<open>load\<close> fails with \<open>DictionaryLoadError\<close> exactly when there is no file at the path,
  or the extension is neither \<open>.txt\<close> nor \<open>.json\<close>, or the file does not decode as text, or
  the file holds no word: a \<open>.txt\<close> file of whitespace only, a \<open>.json\<close> file with an empty
  list. A word set that \<open>load\<close> returns is not empty and is the normalized set of all the
  words of the file.
\<close>

theorem load_fails_exactly_when:
  "(load decode json_words normalise fs path = Inl DictionaryLoadError \<longleftrightarrow>
      fs path = None \<or>
      extension path \<notin> {py ''.txt'', py ''.json''} \<or>
      (\<exists>raw. fs path = Some raw \<and> decode raw = None) \<or>
      (\<exists>raw text. fs path = Some raw \<and> decode raw = Some text \<and>
         (if extension path = py ''.txt'' then \<forall>c\<in>set text. is_space c
          else json_words text = []))) \<and>
   (\<forall>W. load decode json_words normalise fs path = Inr W \<longrightarrow>
      W \<noteq> {} \<and>
      (\<exists>raw text. fs path = Some raw \<and> decode raw = Some text \<and>
         W = normalise ` set (if extension path = py ''.txt'' then text_words text
                              else json_words text)))"
  by (auto simp: load_def SUPORTED_EXTENSIONS_def text_words_empty_iff Let_def
      split: option.splits if_splits)

theorem load_fails_exactly_when_witness:
  "load Some (\<lambda>t. []) id [py ''words.txt'' \<mapsto> py ''rumah'' @ [10] @ py ''ruma'' @ [10]]
       (py ''words.txt'')
     = Inr {py ''rumah'', py ''ruma''} \<and>
   load Some (\<lambda>t. []) id [py ''words.txt'' \<mapsto> [32, 10, 10]] (py ''words.txt'')
     = Inl DictionaryLoadError \<and>
   load Some (\<lambda>t. []) id [py ''words.txt'' \<mapsto> py ''rumah''] (py ''words.csv'')
     = Inl DictionaryLoadError"
proof -
  have e: "extension (py ''words.txt'') = py ''.txt''" by (simp add: extension_def py_def)
  have v: "load Some (\<lambda>t. []) id [py ''words.txt'' \<mapsto> py ''rumah'' @ [10] @ py ''ruma'' @ [10]]
             (py ''words.txt'')
     = Inr {py ''rumah'', py ''ruma''}"
    by (simp add: load_def e SUPORTED_EXTENSIONS_def text_words_def)
       (simp add: py_def strip_def is_space_def)
  have b: "\<forall>c\<in>set [32, 10, 10]. is_space c" by (simp add: is_space_def)
  have n: "py ''words.csv'' \<noteq> py ''words.txt''" by (simp add: py_def)
  from load_fails_exactly_when
    [of Some "\<lambda>t. []" id "[py ''words.txt'' \<mapsto> [32, 10, 10]]" "py ''words.txt''"] b e
  have "load Some (\<lambda>t. []) id [py ''words.txt'' \<mapsto> [32, 10, 10]] (py ''words.txt'')
        = Inl DictionaryLoadError"
    by simp
  moreover
  from load_fails_exactly_when
    [of Some "\<lambda>t. []" id "[py ''words.txt'' \<mapsto> py ''rumah'']" "py ''words.csv''"] n
  have "load Some (\<lambda>t. []) id [py ''words.txt'' \<mapsto> py ''rumah''] (py ''words.csv'')
        = Inl DictionaryLoadError"
    by simp
  moreover
  from load_fails_exactly_when
    [of Some "\<lambda>t. []" id "[py ''words.txt'' \<mapsto> py ''rumah'' @ [10] @ py ''ruma'' @ [10]]"
        "py ''words.txt''"] v
  have "{py ''rumah'', py ''ruma''} \<noteq> ({} :: pystr set)" by blast
  ultimately show ?thesis using v by blast
qed

text \<open>
  C8. A second call of \<open>suggest\<close> with the same word, dictionary and configuration, run on
  the cache the first call left, returns the sequence the first call returned, and leaves
  a consistent cache again. The same holds when the second call meets the words of the
  dictionary in another order: the result depends on the word set only.
\<close>

theorem suggest_repeatable:
  assumes "cache_consistent cache"
  shows "fst (suggest (snd (suggest cache word dictionary max_suggestions max_distance))
                word dictionary max_suggestions max_distance)
           = fst (suggest cache word dictionary max_suggestions max_distance) \<and>
         cache_consistent (snd (suggest cache word dictionary max_suggestions max_distance)) \<and>
         (set dictionary' = set dictionary \<and> distinct dictionary \<and> distinct dictionary'
            \<longrightarrow> fst (suggest (snd (suggest cache word dictionary max_suggestions max_distance))
                        word dictionary' max_suggestions max_distance)
                  = fst (suggest cache word dictionary max_suggestions max_distance))"
proof -
  let ?cache1 = "snd (suggest cache word dictionary max_suggestions max_distance)"
  have c1: "cache_consistent ?cache1"
    by (rule suggest_consistent(2) [OF assms])
  have same: "fst (suggest ?cache1 word dictionary max_suggestions max_distance)
           = fst (suggest cache word dictionary max_suggestions max_distance)"
    using assms c1 by (simp add: suggest_consistent(1))
  have "fst (suggest ?cache1 word dictionary' max_suggestions max_distance)
           = fst (suggest cache word dictionary max_suggestions max_distance)"
    if "set dictionary' = set dictionary \<and> distinct dictionary \<and> distinct dictionary'"
    using that assms c1 ranked_order_independent [of dictionary' dictionary word max_distance]
    by (simp add: suggest_consistent(1))
  with c1 same show ?thesis by blast
qed

theorem suggest_repeatable_witness:
  "cache_consistent Map.empty \<and>
   fst (suggest (snd (suggest Map.empty (py ''rma'') [py ''rumah'', py ''ruma'', py ''rimau''] 2 2))
          (py ''rma'') [py ''rimau'', py ''rumah'', py ''ruma''] 2 2)
     = fst (suggest Map.empty (py ''rma'') [py ''rumah'', py ''ruma'', py ''rimau''] 2 2) \<and>
   fst (suggest Map.empty (py ''rma'') [py ''rumah'', py ''ruma'', py ''rimau''] 2 2)
     = [(py ''ruma'', 1), (py ''rimau'', 2)]"
proof -
  have h: "cache_consistent Map.empty" by (rule cache_consistent_empty)
  have s: "set [py ''rimau'', py ''rumah'', py ''ruma'']
           = set [py ''rumah'', py ''ruma'', py ''rimau'']"
    by auto
  have d: "distinct [py ''rumah'', py ''ruma'', py ''rimau'']"
    "distinct [py ''rimau'', py ''rumah'', py ''ruma'']"
    by (simp_all add: py_def)
  have v: "fst (suggest Map.empty (py ''rma'') [py ''rumah'', py ''ruma'', py ''rimau''] 2 2)
     = [(py ''ruma'', 1), (py ''rimau'', 2)]"
    by (simp add: suggest_def distance_def rank_def py_def)
  from suggest_repeatable
    [OF h, of "py ''rma''" "[py ''rumah'', py ''ruma'', py ''rimau'']" 2 2
       "[py ''rimau'', py ''rumah'', py ''ruma'']"] h s d v
  show ?thesis by blast
qed

section \<open>The order and the reach of the input check\<close>

text \<open>
  C9. The constructor validates the input before the configuration: when both
  \<open>_validate_input\<close> and \<open>_validate_configuration\<close> would raise, the exception of the
  constructor is the one of \<open>_validate_input\<close>, and it is none of the two configuration
  errors.
\<close>

theorem input_validation_first:
  assumes "validate_input inp = Inl e" and "validate_configuration ms md = Inl e'"
  shows "Pariksa inp p cs ms md fz lg ll = Inl e \<and> e \<noteq> e'"
  using assms input_error_not_configuration_error [OF assms] by (simp add: Pariksa_unfold)

theorem input_validation_first_witness:
  "validate_input (PyList []) = Inl (ValueError ''Input data cannot be empty'') \<and>
   validate_configuration 3 9 = Inl (ValueError ''max_distance must be between 1 and 5'') \<and>
   Pariksa (PyList []) (py ''words.txt'') False 3 9 True (None :: unit option) 30
     = Inl (ValueError ''Input data cannot be empty'')"
proof -
  have a: "validate_input (PyList []) = Inl (ValueError ''Input data cannot be empty'')"
    by (simp add: validate_input_list)
  have b: "validate_configuration 3 9 = Inl (ValueError ''max_distance must be between 1 and 5'')"
    by (simp add: validate_configuration_def)
  from input_validation_first [OF a b, of "py ''words.txt''" False True "None :: unit option" 30] a b
  show ?thesis by blast
qed

text \<open>
  C10. An input that is neither a string nor a list makes \<open>_validate_input\<close> raise
  \<open>ValueError\<close>, so the constructor never succeeds on it. A falsy input of any type, the
  empty string and the empty list included, is rejected by the first check, with the
  message "Input data cannot be empty"; the type check is reached by truthy values only.
\<close>

theorem other_types_rejected:
  "(\<not> is_str v \<and> \<not> is_list v \<longrightarrow>
      validate_input v
        = Inl (ValueError (if truthy v then ''Input must be a string or list of strings''
                           else ''Input data cannot be empty'')) \<and>
      isl (Pariksa v p cs ms md fz lg ll)) \<and>
   (\<not> truthy v \<longrightarrow> validate_input v = Inl (ValueError ''Input data cannot be empty''))"
  by (auto simp: validate_input_other validate_input_falsy Pariksa_unfold)

theorem other_types_rejected_witness:
  "validate_input PyNone = Inl (ValueError ''Input data cannot be empty'') \<and>
   validate_input (PyInt 0) = Inl (ValueError ''Input data cannot be empty'') \<and>
   validate_input (PyList []) = Inl (ValueError ''Input data cannot be empty'') \<and>
   validate_input (PyInt 7) = Inl (ValueError ''Input must be a string or list of strings'') \<and>
   isl (Pariksa (PyInt 7) (py ''words.txt'') False 3 2 True (None :: unit option) 30)"
  using other_types_rejected [of PyNone "py ''words.txt''" False 3 2 True "None :: unit option" 30]
    other_types_rejected [of "PyInt 0" "py ''words.txt''" False 3 2 True "None :: unit option" 30]
    other_types_rejected [of "PyList []" "py ''words.txt''" False 3 2 True "None :: unit option" 30]
    other_types_rejected [of "PyInt 7" "py ''words.txt''" False 3 2 True "None :: unit option" 30]
  by simp

end
